theory Spec2Isabelle
  imports Main "HOL-Library.Word"
begin

unbundle bit_operations_syntax

section \<open>Shared data: errors, outcomes, constants\<close>

text \<open>
  Go strings are byte sequences; a \<^typ>\<open>string\<close> is a list of 8-bit characters, so
  \<^const>\<open>length\<close> is Go's \<open>len\<close>.

  Error values. \<open>ErrorString\<close> is what \<open>errors.New\<close> and \<open>fmt.Errorf\<close> build, with
  the message rendered; \<open>OSError\<close> stands for an error handed back by the operating
  system or the standard library. The three remaining constructors are the error
  structs of the package that the modelled code builds; \<open>PluginNotFoundError\<close> wraps
  an error that may be \<open>nil\<close>.
\<close>

datatype err =
    ErrorString string
  | OSError string
  | PluginNotFoundError "err option"
  | PluginExecutionError err
  | FunctionExecutionError string err

text \<open>
  The \<open>%q\<close> verb, for arguments without characters that Go escapes: the argument
  between quotes (single quotes for a rune, double quotes for a string).
\<close>

definition quoteRune :: "char \<Rightarrow> string" where
  "quoteRune r = [CHR 0x27, r, CHR 0x27]"

definition quoteString :: "string \<Rightarrow> string" where
  "quoteString s = [CHR 0x22] @ s @ [CHR 0x22]"

text \<open>The \<open>Error\<close> methods.\<close>

fun Error :: "err \<Rightarrow> string" where
  "Error (ErrorString s) = s"
| "Error (OSError s) = s"
| "Error (PluginNotFoundError None) = ''plugin not found: <nil>''"
| "Error (PluginNotFoundError (Some e)) = ''plugin not found: '' @ Error e"
| "Error (PluginExecutionError e) = ''plugin execution error: '' @ Error e"
| "Error (FunctionExecutionError f e) =
     ''error executing function '' @ quoteString f @ '': '' @ Error e"

text \<open>Decimal rendering of a natural number, as \<open>%d\<close> prints it.\<close>

definition digitChar :: "nat \<Rightarrow> char" where
  "digitChar d = char_of (of_char (CHR ''0'') + d)"

function decimal :: "nat \<Rightarrow> string" where
  "decimal n = (if n < 10 then [digitChar n] else decimal (n div 10) @ [digitChar (n mod 10)])"
  by pat_completeness auto
termination
  by (relation "measure id") auto

declare decimal.simps [simp del]

text \<open>A call either returns or panics; the panics of the source are runtime panics.\<close>

datatype panic = NilDereference | MuxConflict string | CloseOfClosedChannel

datatype 'a outcome = Return 'a | Panic panic

definition schemasPath :: string where
  "schemasPath = ''/_schemas''"

definition healthPath :: string where
  "healthPath = ''/_healthz''"

definition basePath :: string where
  "basePath = ''/''"

definition defaultSchema :: string where
  "defaultSchema = ''http://''"

definition defaultHost :: string where
  "defaultHost = ''127.0.0.1''"

section \<open>The plugin server\<close>

subsection \<open>Function names\<close>

text \<open>
  The character test of \<open>validateFunctionName\<close>, on the character's code. The source
  ranges over runes; a byte below 128 is its own rune and every other rune is encoded
  by bytes of 128 and above only, none of which passes the test, so the test over the
  bytes accepts the same strings.
\<close>

definition allowedChar :: "char \<Rightarrow> bool" where
  "allowedChar r \<longleftrightarrow>
     r = CHR ''-'' \<or> r = CHR ''_'' \<or> r = CHR ''.''
     \<or> ((of_char (CHR ''a'') :: nat) \<le> of_char r \<and> (of_char r :: nat) \<le> of_char (CHR ''z''))
     \<or> ((of_char (CHR ''A'') :: nat) \<le> of_char r \<and> (of_char r :: nat) \<le> of_char (CHR ''Z''))
     \<or> ((of_char (CHR ''0'') :: nat) \<le> of_char r \<and> (of_char r :: nat) \<le> of_char (CHR ''9''))"

fun firstInvalid :: "string \<Rightarrow> char option" where
  "firstInvalid [] = None"
| "firstInvalid (r # rs) = (if \<not> allowedChar r then Some r else firstInvalid rs)"

definition validateFunctionName :: "string \<Rightarrow> err option" where
  "validateFunctionName function =
     (if function = [] then Some (ErrorString ''function name cannot be empty'')
      else if hd function = CHR ''/'' then Some (ErrorString (''function name cannot start with '' @ [CHR 0x27, CHR ''/'', CHR 0x27]))
      else if length function > 128
        then Some (ErrorString ''function name cannot be longer than 128 characters'')
      else (case firstInvalid function of
              Some r \<Rightarrow>
                Some (ErrorString (''function name contains invalid character: '' @ quoteRune r))
            | None \<Rightarrow> None))"




subsection \<open>Schemas, handlers, routes\<close>

record Schema =
  Input :: string
  Output :: string

text \<open>
  A \<open>Handler\<close> pairs the HTTP handler with the schema; the HTTP handler itself is a
  parameter \<open>'h\<close> of the model.
\<close>

record 'h Handler =
  HTTPHandler :: 'h
  HandlerSchema :: Schema

text \<open>
  What a pattern of the request multiplexer is bound to: the handler of a function, the
  closure of \<open>AddFunction\<close> that serves one function's schema (it reads the function
  table when a request arrives), and the two closures \<open>NewPlugin\<close> installs.
\<close>

datatype 'h route = FunctionRoute 'h | SchemaRoute string | HealthRoute | SchemasRoute

text \<open>
  \<open>http.ServeMux\<close>, for the patterns this package registers: literal paths without
  wildcard, method, host or trailing slash. Two such patterns conflict exactly when they
  are equal, and \<open>Handle\<close> panics on a conflicting pattern.
\<close>

type_synonym 'h ServeMux = "string \<rightharpoonup> 'h route"

definition Handle :: "'h ServeMux \<Rightarrow> string \<Rightarrow> 'h route \<Rightarrow> 'h ServeMux outcome" where
  "Handle m pattern h =
     (case m pattern of
        Some _ \<Rightarrow> Panic (MuxConflict pattern)
      | None \<Rightarrow> Return (m(pattern \<mapsto> h)))"

record Server =
  Addr :: string
  ReadTimeout :: int

record 'h Plugin =
  functionsMap :: "string \<rightharpoonup> Schema"
  httpServer :: "Server option"
  mux :: "'h ServeMux option"


text \<open>
  \<open>AddFunction\<close>. A name that fails validation is logged (the logger writes to standard
  error, which the model leaves out) and the plugin is returned as it was. Otherwise the
  table entry is written first and the two routes are installed after it, so a panic of
  the multiplexer leaves the table entry written.
\<close>

definition AddFunction :: "'h Plugin \<Rightarrow> string \<Rightarrow> 'h Handler \<Rightarrow> unit outcome \<times> 'h Plugin" where
  "AddFunction l functionName handler =
     (case validateFunctionName functionName of
        Some e \<Rightarrow> (Return (), l)
      | None \<Rightarrow>
          (let l1 = l\<lparr>functionsMap := (functionsMap l)(functionName \<mapsto> HandlerSchema handler)\<rparr> in
           case mux l1 of
             None \<Rightarrow> (Panic NilDereference, l1)
           | Some m \<Rightarrow>
               (case Handle m (basePath @ functionName) (FunctionRoute (HTTPHandler handler)) of
                  Panic p \<Rightarrow> (Panic p, l1)
                | Return m1 \<Rightarrow>
                    (case Handle m1 (basePath @ functionName @ schemasPath)
                            (SchemaRoute functionName) of
                       Panic p \<Rightarrow> (Panic p, l1\<lparr>mux := Some m1\<rparr>)
                     | Return m2 \<Rightarrow> (Return (), l1\<lparr>mux := Some m2\<rparr>)))))"


subsection \<open>Start\<close>




definition newline :: string where
  "newline = [CHR 0x0A]"



section \<open>The function endpoint\<close>

text \<open>
  A request as the handler reads it: the method, and what \<open>io.ReadAll\<close> gives for the
  body. What the handler writes: status, content type if set, and body.
\<close>

record Request =
  Method :: string
  Body :: "err + string"

record ResponseWriter =
  StatusCode :: nat
  ContentType :: "string option"
  Written :: string

text \<open>
  The validator's result: validity and the errors by field. The list gives the fields in
  the order in which the iteration over the map visits them.
\<close>

record EvaluationResult =
  Valid :: bool
  Errors :: "(string \<times> string) list"

type_synonym Validator = "string \<Rightarrow> EvaluationResult"

text \<open>
  The JSON library, for an input type \<open>'i\<close> and an output type \<open>'r\<close>: \<open>Unmarshal\<close>
  decodes a payload into the input type, \<open>unknownKeys\<close> lists the object keys of a
  payload that match no field of the input type, \<open>Marshal\<close> encodes an output.
  A decoder on which \<open>DisallowUnknownFields\<close> was called returns an error when the
  payload has such a key.
\<close>

record ('i, 'r) codec =
  Unmarshal :: "string \<Rightarrow> err + 'i"
  unknownKeys :: "string \<Rightarrow> string list"
  Marshal :: "'r \<Rightarrow> err + string"

definition Decode :: "('i, 'r) codec \<Rightarrow> bool \<Rightarrow> string \<Rightarrow> err + 'i" where
  "Decode cd disallowUnknownFields data =
     (case Unmarshal cd data of
        Inl e \<Rightarrow> Inl e
      | Inr v \<Rightarrow>
          (case (if disallowUnknownFields then unknownKeys cd data else []) of
             [] \<Rightarrow> Inr v
           | k # _ \<Rightarrow> Inl (OSError (''json: unknown field '' @ quoteString k))))"

text \<open>The steps of one request, in the order the handler takes them.\<close>

datatype 'i step = ReadBody | Validate string | Decoding string | Invoke 'i | Encode

fun Join :: "string list \<Rightarrow> string \<Rightarrow> string" where
  "Join [] sep = []"
| "Join [x] sep = x"
| "Join (x # y # ys) sep = x @ sep @ Join (y # ys) sep"

definition decodeInput ::
  "('i, 'r) codec \<Rightarrow> Request \<Rightarrow> Validator option \<Rightarrow> (err + 'i) \<times> 'i step list" where
  "decodeInput cd r validator =
     (case Body r of
        Inl e \<Rightarrow> (Inl e, [ReadBody])
      | Inr data \<Rightarrow>
          (let failed =
                 (case validator of
                    None \<Rightarrow> None
                  | Some v \<Rightarrow>
                      (let result = v data in
                       if \<not> Valid result
                       then Some (ErrorString (''invalid input: '' @
                              Join (map (\<lambda>(field, e). field @ '': '' @ e) (Errors result)) '', ''))
                       else None));
               validated = (case validator of None \<Rightarrow> [] | Some v \<Rightarrow> [Validate data])
           in case failed of
                Some e \<Rightarrow> (Inl e, ReadBody # validated)
              | None \<Rightarrow> (Decode cd True data, ReadBody # validated @ [Decoding data])))"

definition encodeOutput ::
  "('i, 'r) codec \<Rightarrow> nat \<Rightarrow> 'r \<Rightarrow> err option \<times> ResponseWriter" where
  "encodeOutput cd status v =
     (case Marshal cd v of
        Inl e \<Rightarrow> (Some e, \<lparr> StatusCode = status, ContentType = Some ''application/json'', Written = [] \<rparr>)
      | Inr b \<Rightarrow> (None, \<lparr> StatusCode = status, ContentType = Some ''application/json'',
                           Written = b @ newline \<rparr>))"

text \<open>
  The HTTP handler that \<open>NewFunctionHandler\<close> builds around \<open>fn\<close>. Its messages on
  standard error are left out.
\<close>

definition httpHandler ::
  "('i, 'r) codec \<Rightarrow> ('i \<Rightarrow> err + 'r) \<Rightarrow> Validator option \<Rightarrow> Request
     \<Rightarrow> ResponseWriter \<times> 'i step list" where
  "httpHandler cd fn validator r =
     (if Method r \<noteq> ''POST''
      then (\<lparr> StatusCode = 405, ContentType = None, Written = ''method not allowed'' \<rparr>, [])
      else
        (case decodeInput cd r validator of
           (Inl e, steps) \<Rightarrow>
             (\<lparr> StatusCode = 400, ContentType = None, Written = Error e \<rparr>, steps)
         | (Inr req, steps) \<Rightarrow>
             (case fn req of
                Inl e \<Rightarrow>
                  (\<lparr> StatusCode = 500, ContentType = None, Written = Error e \<rparr>,
                   steps @ [Invoke req])
              | Inr resp \<Rightarrow> (snd (encodeOutput cd 200 resp), steps @ [Invoke req, Encode]))))"

definition invoked :: "'i step list \<Rightarrow> bool" where
  "invoked steps \<longleftrightarrow> (\<exists>x \<in> set steps. case x of Invoke _ \<Rightarrow> True | _ \<Rightarrow> False)"

section \<open>The client\<close>

subsection \<open>State\<close>

text \<open>Durations are nanoseconds, as in \<open>time.Duration\<close>.\<close>

definition DefaultFunctionExecutionTimeout :: int where
  "DefaultFunctionExecutionTimeout = 2 * 60 * 1000000000"

definition DefaultHealthCheckTimeout :: int where
  "DefaultHealthCheckTimeout = 5 * 1000000000"

definition DefaultHealthCheckInterval :: int where
  "DefaultHealthCheckInterval = 150 * 1000000"

record Connection =
  FunctionExecutionTimeout :: int
  BaseURL :: string

text \<open>
  An \<open>exec.Cmd\<close> holds the process once it has been started; processes, contexts
  and channels are numbers. An \<open>http.Client\<close> is its timeout, a cancel function is the
  number of the context it cancels.
\<close>

record Cmd =
  Process :: "nat option"

record Client =
  path :: string
  functionExecutionTimeout :: int
  healthCheckTimeout :: int
  healthCheckInterval :: int
  heartbeatInterval :: int
  heartbeatChan :: "nat option"
  httpClient :: "int option"
  connection :: "Connection option"
  commandContext :: "Cmd option"
  cancel :: "nat option"

datatype ClientOption =
    WithFunctionExecutionTimeout int
  | WithHealthCheckTimeout int
  | WithHealthCheckInterval int
  | WithHeartbeatInterval int

fun applyOption :: "ClientOption \<Rightarrow> Client \<Rightarrow> Client" where
  "applyOption (WithFunctionExecutionTimeout timeout) p = p\<lparr>functionExecutionTimeout := timeout\<rparr>"
| "applyOption (WithHealthCheckTimeout timeout) p = p\<lparr>healthCheckTimeout := timeout\<rparr>"
| "applyOption (WithHealthCheckInterval interval) p = p\<lparr>healthCheckInterval := interval\<rparr>"
| "applyOption (WithHeartbeatInterval interval) p = p\<lparr>heartbeatInterval := interval\<rparr>"

definition New :: "string \<Rightarrow> ClientOption list \<Rightarrow> Client" where
  "New pth opts =
     fold applyOption opts
       \<lparr> path = pth,
         functionExecutionTimeout = DefaultFunctionExecutionTimeout,
         healthCheckTimeout = DefaultHealthCheckTimeout,
         healthCheckInterval = DefaultHealthCheckInterval,
         heartbeatInterval = 0,
         heartbeatChan = None,
         httpClient = None,
         connection = None,
         commandContext = None,
         cancel = None \<rparr>"

definition Client_Connection :: "Client \<Rightarrow> Connection option" where
  "Client_Connection c = connection c"

subsection \<open>The world around a client\<close>

text \<open>
  What the client's calls change outside it: the processes it has started that still run,
  the process started under each context, the contexts cancelled, the channels closed,
  the next fresh context and channel, and the clock.
\<close>

record world =
  alive :: "nat set"
  startedUnder :: "nat \<rightharpoonup> nat"
  cancelled :: "nat set"
  closed :: "nat set"
  nextContext :: nat
  nextChan :: nat
  clock :: int

text \<open>
  What the operating system and the plugin answer during one call: \<open>os.Stat\<close> on the
  path, \<open>Start\<close> of the command (the new process), \<open>ReadString\<close> of the first line of
  the plugin's standard output (the line with its newline), each GET (by URL and by the
  number of the attempt: a status or a transport error, and the time the attempt took),
  and \<open>Kill\<close> on a process. The error of \<open>StdoutPipe\<close> is discarded by the source, and
  the pipe is taken as created.
\<close>

record FileInfo =
  Mode :: "32 word"

record probe =
  status :: "nat option"
  took :: int

record env =
  stat :: "err + FileInfo"
  start :: "err + nat"
  readLine :: "err + string"
  httpGet :: "string \<Rightarrow> nat \<Rightarrow> probe"
  kill :: "nat \<Rightarrow> err option"

definition ModeDir :: "32 word" where
  "ModeDir = push_bit 31 1"

definition IsDir :: "FileInfo \<Rightarrow> bool" where
  "IsDir fileInfo \<longleftrightarrow> Mode fileInfo AND ModeDir \<noteq> 0"

definition fileIsExecutable :: "FileInfo \<Rightarrow> bool" where
  "fileIsExecutable fileInfo \<longleftrightarrow> Mode fileInfo AND 0x49 \<noteq> 0"

text \<open>
  Cancelling a context kills the process started under it; \<open>Kill\<close> leaves the process
  not running, whether it delivers the signal or reports that the process has finished.
\<close>

definition cancelContext :: "nat \<Rightarrow> world \<Rightarrow> world" where
  "cancelContext ctx w =
     w\<lparr> cancelled := insert ctx (cancelled w),
        alive := (case startedUnder w ctx of None \<Rightarrow> alive w | Some pid \<Rightarrow> alive w - {pid}) \<rparr>"

subsection \<open>The port line\<close>

text \<open>\<open>strings.TrimSpace\<close>, for the white space of ASCII.\<close>

definition isSpace :: "char \<Rightarrow> bool" where
  "isSpace c \<longleftrightarrow> c \<in> {CHR 0x09, CHR 0x0A, CHR 0x0B, CHR 0x0C, CHR 0x0D, CHR 0x20}"

definition TrimSpace :: "string \<Rightarrow> string" where
  "TrimSpace s = rev (dropWhile isSpace (rev (dropWhile isSpace s)))"

text \<open>
  \<open>strconv.Atoi\<close> with a 64-bit \<open>int\<close>: an optional sign, then one decimal digit or
  more, and a value within the range of \<open>int\<close>.
\<close>

definition isDigit :: "char \<Rightarrow> bool" where
  "isDigit c \<longleftrightarrow> (of_char (CHR ''0'') :: nat) \<le> of_char c \<and> (of_char c :: nat) \<le> of_char (CHR ''9'')"

fun digitsValue :: "string \<Rightarrow> nat \<Rightarrow> nat option" where
  "digitsValue [] acc = Some acc"
| "digitsValue (c # cs) acc =
     (if isDigit c then digitsValue cs (acc * 10 + (of_char c - of_char (CHR ''0''))) else None)"

definition Atoi :: "string \<Rightarrow> err + int" where
  "Atoi s =
     (let neg = (case s of c # cs \<Rightarrow> c = CHR ''-'' | [] \<Rightarrow> False);
          ds = (case s of c # cs \<Rightarrow> if c = CHR ''-'' \<or> c = CHR ''+'' then cs else s | [] \<Rightarrow> [])
      in if ds = [] then Inl (OSError ''strconv.Atoi: invalid syntax'')
         else
           (case digitsValue ds 0 of
              None \<Rightarrow> Inl (OSError ''strconv.Atoi: invalid syntax'')
            | Some n \<Rightarrow>
                (let v = (if neg then - int n else int n) in
                 if v < - (2 ^ 63) \<or> 2 ^ 63 \<le> v then Inl (OSError ''strconv.Atoi: value out of range'')
                 else Inr v)))"

subsection \<open>Health polling\<close>

definition timeoutError :: err where
  "timeoutError = ErrorString ''timeout waiting for plugin to become healthy''"

text \<open>
  The loop of \<open>waitForHealth\<close>, from attempt \<open>k\<close> at time \<open>now\<close>. The probes are absent
  when the client has no connection or no transport client, and the call of \<open>Get\<close> then
  panics. A sleep of a negative duration returns at once. The loop may not return, and
  that is the value \<open>None\<close>.
\<close>

partial_function (option) pollHealth ::
  "(nat \<Rightarrow> probe) option \<Rightarrow> int \<Rightarrow> int \<Rightarrow> nat \<Rightarrow> int \<Rightarrow> (err option outcome \<times> nat \<times> int) option" where
  "pollHealth probes interval deadline k now =
     (if deadline < now then Some (Return (Some timeoutError), k, now)
      else
        (case probes of
           None \<Rightarrow> Some (Panic NilDereference, k, now)
         | Some g \<Rightarrow>
             if status (g k) = Some 200 then Some (Return None, Suc k, now + took (g k))
             else pollHealth probes interval deadline (Suc k) (now + took (g k) + max 0 interval)))"

definition healthProbes :: "env \<Rightarrow> Client \<Rightarrow> (nat \<Rightarrow> probe) option" where
  "healthProbes e c =
     (case connection c of
        None \<Rightarrow> None
      | Some conn \<Rightarrow>
          (case httpClient c of
             None \<Rightarrow> None
           | Some t \<Rightarrow> Some (httpGet e (BaseURL conn @ healthPath))))"

definition waitForHealth :: "env \<Rightarrow> Client \<Rightarrow> world \<Rightarrow> (err option outcome \<times> world) option" where
  "waitForHealth e c w =
     (case pollHealth (healthProbes e c) (healthCheckInterval c)
             (clock w + healthCheckTimeout c) 0 (clock w) of
        None \<Rightarrow> None
      | Some (r, k, t) \<Rightarrow> Some (r, w\<lparr>clock := t\<rparr>))"



subsection \<open>Close and Open\<close>

text \<open>
  \<open>Close\<close>: the cancel function is called if there is one, the process is killed if
  there is one, and the deferred function then clears the fields in the order of the
  source; closing a channel that is closed already panics, after the first two fields
  have been cleared.
\<close>

definition Close :: "env \<Rightarrow> Client \<Rightarrow> world \<Rightarrow> err option outcome \<times> Client \<times> world" where
  "Close e c w =
     (let w1 = (case cancel c of None \<Rightarrow> w | Some ctx \<Rightarrow> cancelContext ctx w);
          pid = (case commandContext c of None \<Rightarrow> None | Some cmd \<Rightarrow> Process cmd);
          result = (case pid of None \<Rightarrow> None | Some p \<Rightarrow> kill e p);
          w2 = (case pid of None \<Rightarrow> w1 | Some p \<Rightarrow> w1\<lparr>alive := alive w1 - {p}\<rparr>);
          c1 = c\<lparr>commandContext := None, cancel := None\<rparr>
      in case heartbeatChan c of
           None \<Rightarrow> (Return result, c1\<lparr>connection := None, httpClient := None\<rparr>, w2)
         | Some ch \<Rightarrow>
             if ch \<in> closed w2 then (Panic CloseOfClosedChannel, c1, w2)
             else (Return result,
                   c1\<lparr>heartbeatChan := None, connection := None, httpClient := None\<rparr>,
                   w2\<lparr>closed := insert ch (closed w2)\<rparr>))"

text \<open>The failure paths of \<open>Open\<close>: \<open>_ = c.Close()\<close>, then the error is returned.\<close>

definition closeAndReturn ::
  "env \<Rightarrow> Client \<Rightarrow> world \<Rightarrow> err \<Rightarrow> err option outcome \<times> Client \<times> world" where
  "closeAndReturn e c w er =
     (case Close e c w of
        (Panic p, c1, w1) \<Rightarrow> (Panic p, c1, w1)
      | (Return r, c1, w1) \<Rightarrow> (Return (Some er), c1, w1))"

text \<open>
  \<open>Open\<close>. The goroutine that supervises the plugin runs beside the caller and is not
  part of the model; its channel is created here.
\<close>

definition Open :: "env \<Rightarrow> Client \<Rightarrow> world \<Rightarrow> (err option outcome \<times> Client \<times> world) option" where
  "Open e c w =
     (if commandContext c \<noteq> None
      then Some (Return (Some (ErrorString ''plugin is already running'')), c, w)
      else
        (case stat e of
           Inl er \<Rightarrow> Some (Return (Some (PluginNotFoundError (Some er))), c, w)
         | Inr fileInfo \<Rightarrow>
             if IsDir fileInfo then Some (Return (Some (PluginNotFoundError None)), c, w)
             else if \<not> fileIsExecutable fileInfo
             then Some (Return (Some (PluginExecutionError
                                        (ErrorString ''plugin must be an executable''))), c, w)
             else
               (let ctx = nextContext w;
                    w1 = w\<lparr>nextContext := Suc ctx\<rparr>;
                    c1 = c\<lparr>cancel := Some ctx\<rparr>
                in case start e of
                     Inl er \<Rightarrow> Some (closeAndReturn e c1 w1 (PluginExecutionError er))
                   | Inr pid \<Rightarrow>
                       (let w2 = w1\<lparr>alive := insert pid (alive w1),
                                     startedUnder := (startedUnder w1)(ctx \<mapsto> pid)\<rparr>;
                            c2 = c1\<lparr>commandContext := Some \<lparr>Process = Some pid\<rparr>\<rparr>
                        in case readLine e of
                             Inl er \<Rightarrow> Some (closeAndReturn e c2 w2 (PluginExecutionError er))
                           | Inr line \<Rightarrow>
                               (let pluginPort = TrimSpace line in
                                case Atoi pluginPort of
                                  Inl er \<Rightarrow>
                                    Some (closeAndReturn e c2 w2
                                      (PluginExecutionError (ErrorString
                                         (''invalid port received from plugin: '' @ pluginPort))))
                                | Inr n \<Rightarrow>
                                    (let c3 = c2\<lparr>connection := Some
                                                   \<lparr>FunctionExecutionTimeout = 0,
                                                    BaseURL = defaultSchema @ defaultHost @ '':'' @ pluginPort\<rparr>,
                                                 httpClient := Some (functionExecutionTimeout c2)\<rparr>
                                     in case waitForHealth e c3 w2 of
                                          None \<Rightarrow> None
                                        | Some (Panic p, w3) \<Rightarrow> Some (Panic p, c3, w3)
                                        | Some (Return (Some er), w3) \<Rightarrow>
                                            Some (closeAndReturn e c3 w3 (PluginExecutionError er))
                                        | Some (Return None, w3) \<Rightarrow>
                                            if heartbeatInterval c3 > 0
                                            then Some (Return None,
                                                       c3\<lparr>heartbeatChan := Some (nextChan w3)\<rparr>,
                                                       w3\<lparr>nextChan := Suc (nextChan w3)\<rparr>)
                                            else Some (Return None, c3, w3)))))))"

subsection \<open>The steps of Open\<close>

text \<open>The path is a file that may be executed.\<close>

definition runnable :: "env \<Rightarrow> bool" where
  "runnable e \<longleftrightarrow> (case stat e of Inl er \<Rightarrow> False | Inr fileInfo \<Rightarrow> \<not> IsDir fileInfo \<and> fileIsExecutable fileInfo)"

text \<open>
  The state a failed \<open>Open\<close> leaves behind, against the world it started in: nothing
  of a connection is left in the client, no channel was made or closed, and no process
  runs that did not run before.
\<close>

definition cleanedUp :: "world \<Rightarrow> Client \<Rightarrow> world \<Rightarrow> bool" where
  "cleanedUp w c1 w1 \<longleftrightarrow>
     connection c1 = None \<and> commandContext c1 = None \<and> httpClient c1 = None
     \<and> cancel c1 = None \<and> heartbeatChan c1 = None
     \<and> closed w1 = closed w \<and> nextChan w1 = nextChan w \<and> alive w1 \<subseteq> alive w"

text \<open>The client as \<open>Open\<close> has it when it polls the health path, and the world then.\<close>

definition polling :: "Client \<Rightarrow> world \<Rightarrow> nat \<Rightarrow> string \<Rightarrow> Client" where
  "polling c w pid line =
     c\<lparr> cancel := Some (nextContext w),
        commandContext := Some \<lparr>Process = Some pid\<rparr>,
        connection := Some \<lparr>FunctionExecutionTimeout = 0,
                            BaseURL = defaultSchema @ defaultHost @ '':'' @ TrimSpace line\<rparr>,
        httpClient := Some (functionExecutionTimeout c) \<rparr>"

definition spawned :: "world \<Rightarrow> nat \<Rightarrow> world" where
  "spawned w pid =
     w\<lparr> nextContext := Suc (nextContext w),
        alive := insert pid (alive w),
        startedUnder := (startedUnder w)(nextContext w \<mapsto> pid) \<rparr>"

subsection \<open>Reachable states\<close>

text \<open>The processes a client holds a handle to.\<close>

definition handleOf :: "Client \<Rightarrow> nat set" where
  "handleOf c =
     (case commandContext c of
        None \<Rightarrow> {}
      | Some cmd \<Rightarrow> (case Process cmd of None \<Rightarrow> {} | Some p \<Rightarrow> {p}))"

text \<open>
  What holds of a client and its world after any sequence of \<open>New\<close>, \<open>Open\<close> and
  \<open>Close\<close>: the notification channel of the client is open, channels yet to be made are
  not closed, a client without process handle has no channel, connection, transport
  client or cancel function, and no process runs but the one the client has a handle to.
\<close>

definition wellFormed :: "Client \<Rightarrow> world \<Rightarrow> bool" where
  "wellFormed c w \<longleftrightarrow>
     (\<forall>ch. heartbeatChan c = Some ch \<longrightarrow> ch \<notin> closed w \<and> ch < nextChan w)
     \<and> (\<forall>ch \<in> closed w. ch < nextChan w)
     \<and> (commandContext c = None \<longrightarrow>
          heartbeatChan c = None \<and> connection c = None \<and> httpClient c = None \<and> cancel c = None)
     \<and> alive w \<subseteq> handleOf c"

subsection \<open>Schemas\<close>

record httpResponse =
  respStatus :: nat
  respBody :: string

text \<open>
  \<open>Client.Schemas\<close>, with the GET and the decoder of the response as parameters; the
  second component lists the URLs requested.
\<close>

definition Client_Schemas ::
  "(string \<Rightarrow> err + httpResponse) \<Rightarrow> (string \<Rightarrow> err + 's) \<Rightarrow> Client
     \<Rightarrow> (err + 's) outcome \<times> string list" where
  "Client_Schemas get decode c =
     (case connection c of
        None \<Rightarrow> (Return (Inl (ErrorString ''plugin is not connected'')), [])
      | Some conn \<Rightarrow>
          (case httpClient c of
             None \<Rightarrow> (Panic NilDereference, [])
           | Some t \<Rightarrow>
               (let url = BaseURL conn @ schemasPath in
                case get url of
                  Inl er \<Rightarrow> (Return (Inl (PluginExecutionError er)), [url])
                | Inr resp \<Rightarrow>
                    if respStatus resp \<noteq> 200
                    then (Return (Inl (PluginExecutionError (ErrorString
                            (''plugin returned status '' @ decimal (respStatus resp))))), [url])
                    else
                      (case decode (respBody resp) of
                         Inl er \<Rightarrow> (Return (Inl (PluginExecutionError er)), [url])
                       | Inr schemas \<Rightarrow> (Return (Inr schemas), [url])))))"

section \<open>The function stub\<close>

record Function =
  name :: string
  fnHttpClient :: int
  clientConnection :: Connection

text \<open>
  \<open>NewFunction\<close> reads the timeout of the connection it is given, which is a pointer:
  on \<open>nil\<close> the read panics.
\<close>

definition NewFunction :: "string \<Rightarrow> Connection option \<Rightarrow> Function outcome" where
  "NewFunction nm conn =
     (case conn of
        None \<Rightarrow> Panic NilDereference
      | Some cn \<Rightarrow>
          Return \<lparr> name = nm, fnHttpClient = FunctionExecutionTimeout cn, clientConnection = cn \<rparr>)"

text \<open>
  \<open>Call\<close>, with the encoder of the input, the decoder of the output and the POST (by
  URL and body) as parameters.
\<close>

definition Call ::
  "('t \<Rightarrow> err + string) \<Rightarrow> (string \<Rightarrow> err + 'r) \<Rightarrow> (string \<Rightarrow> string \<Rightarrow> err + httpResponse)
     \<Rightarrow> Function \<Rightarrow> 't \<Rightarrow> err + 'r" where
  "Call marshal unmarshal doPost f input =
     (case marshal input of
        Inl er \<Rightarrow> Inl (FunctionExecutionError (name f) er)
      | Inr b \<Rightarrow>
          (case doPost (BaseURL (clientConnection f) @ ''/'' @ name f) b of
             Inl er \<Rightarrow> Inl (FunctionExecutionError (name f) er)
           | Inr resp \<Rightarrow>
               if respStatus resp \<noteq> 200
               then Inl (FunctionExecutionError (name f) (ErrorString
                      (''plugin returned status '' @ decimal (respStatus resp) @ '': '' @ respBody resp)))
               else
                 (case unmarshal (respBody resp) of
                    Inl er \<Rightarrow> Inl (FunctionExecutionError (name f) er)
                  | Inr output \<Rightarrow> Inr output)))"

section \<open>Examples\<close>

text \<open>
  An endpoint for the examples below: the payload is the name itself, the empty payload
  does not decode, one payload has a key the input type does not know, the validator
  wants three characters, and the function fails on one name.
\<close>

definition helloCodec :: "(string, string) codec" where
  "helloCodec =
     \<lparr> Unmarshal = (\<lambda>d. if d = [] then Inl (OSError ''EOF'') else Inr d),
       unknownKeys = (\<lambda>d. if d = ''world+extra'' then [''extra''] else []),
       Marshal = (\<lambda>out. Inr out) \<rparr>"

definition helloFn :: "string \<Rightarrow> err + string" where
  "helloFn n = (if n = ''boom'' then Inl (ErrorString ''boom failed'') else Inr (''hello, '' @ n @ ''!''))"

definition helloValidator :: Validator where
  "helloValidator d =
     (if length d < 3 then \<lparr> Valid = False, Errors = [(''name'', ''too short'')] \<rparr>
      else \<lparr> Valid = True, Errors = [] \<rparr>)"

definition post :: "string \<Rightarrow> Request" where
  "post d = \<lparr> Method = ''POST'', Body = Inr d \<rparr>"



text \<open>
  A connected client for the examples below, and two plugins: one answers the third
  probe, the other none; every attempt takes a millisecond.
\<close>

definition connectedClient :: Client where
  "connectedClient =
     (New ''./plugin'' [])
       \<lparr> connection := Some \<lparr>FunctionExecutionTimeout = 0, BaseURL = ''http://127.0.0.1:8080''\<rparr>,
         httpClient := Some DefaultFunctionExecutionTimeout \<rparr>"

definition slowStart :: "string \<Rightarrow> nat \<Rightarrow> probe" where
  "slowStart url k = (if k < 2 then \<lparr>status = None, took = 1000000\<rparr>
                      else \<lparr>status = Some 200, took = 1000000\<rparr>)"

definition neverUp :: "string \<Rightarrow> nat \<Rightarrow> probe" where
  "neverUp url k = \<lparr>status = Some 503, took = 1000000\<rparr>"

definition world0 :: world where
  "world0 = \<lparr> alive = {}, startedUnder = Map.empty, cancelled = {}, closed = {},
               nextContext = 0, nextChan = 0, clock = 0 \<rparr>"

definition healthyEnv :: env where
  "healthyEnv =
     \<lparr> stat = Inr \<lparr>Mode = 0x1ED\<rparr>, start = Inr 4242, readLine = Inr (''8080'' @ newline),
       httpGet = slowStart, kill = (\<lambda>p. None) \<rparr>"

definition deadEnv :: env where
  "deadEnv = healthyEnv\<lparr>httpGet := neverUp\<rparr>"

text \<open>
  For the examples below: the client once \<open>Open\<close> has succeeded with supervision on,
  its world, and a plugin whose process has finished when it is killed.
\<close>

definition openClient :: Client where
  "openClient =
     connectedClient
       \<lparr> heartbeatInterval := 200000000, heartbeatChan := Some 0,
         commandContext := Some \<lparr>Process = Some 4242\<rparr>, cancel := Some 0 \<rparr>"

definition world1 :: world where
  "world1 = world0\<lparr> alive := {4242}, startedUnder := [0 \<mapsto> 4242], nextContext := 1, nextChan := 1 \<rparr>"

definition finishedEnv :: env where
  "finishedEnv = healthyEnv\<lparr>kill := (\<lambda>p. Some (OSError ''os: process already finished''))\<rparr>"

text \<open>
  For the examples below: a client that gives the plugin a tenth of a second to become
  healthy, and plugins that fail at each step of \<open>Open\<close>.
\<close>

definition impatientClient :: Client where
  "impatientClient = New ''./plugin'' [WithHealthCheckTimeout 100000000]"

definition missingEnv :: env where
  "missingEnv = healthyEnv\<lparr>stat := Inl (OSError ''stat ./plugin: no such file or directory'')\<rparr>"

definition directoryEnv :: env where
  "directoryEnv = healthyEnv\<lparr>stat := Inr \<lparr>Mode = ModeDir OR 0x1ED\<rparr>\<rparr>"

definition notExecutableEnv :: env where
  "notExecutableEnv = healthyEnv\<lparr>stat := Inr \<lparr>Mode = 0x1A4\<rparr>\<rparr>"

definition startFailsEnv :: env where
  "startFailsEnv = healthyEnv\<lparr>start := Inl (OSError ''fork/exec ./plugin: exec format error'')\<rparr>"

definition silentEnv :: env where
  "silentEnv = healthyEnv\<lparr>readLine := Inl (OSError ''EOF'')\<rparr>"

definition chattyEnv :: env where
  "chattyEnv = healthyEnv\<lparr>readLine := Inr (''starting up'' @ newline)\<rparr>"

definition portZeroEnv :: env where
  "portZeroEnv = healthyEnv\<lparr>readLine := Inr (''0'' @ newline), httpGet := neverUp\<rparr>"

section \<open>Properties of the plugin server\<close>

subsection \<open>Function names\<close>








subsection \<open>Registration\<close>



lemma AddFunction_table_other:
  "n' \<noteq> n \<Longrightarrow> functionsMap (snd (AddFunction l n h)) n' = functionsMap l n'"
  by (auto simp: AddFunction_def Let_def Handle_def split: option.splits outcome.splits)









subsection \<open>Start\<close>








section \<open>Properties of the function endpoint\<close>

lemma decodeInput_steps_not_invoked: "\<not> invoked (snd (decodeInput cd r validator))"
  by (auto simp: decodeInput_def invoked_def Let_def split: sum.splits option.splits)

lemma httpHandler_not_post:
  "Method r \<noteq> ''POST'' \<Longrightarrow>
     StatusCode (fst (httpHandler cd fn validator r)) = 405
     \<and> \<not> invoked (snd (httpHandler cd fn validator r))"
  by (simp add: httpHandler_def invoked_def)

lemma httpHandler_invalid:
  assumes "Method r = ''POST''" "Body r = Inr data" "validator = Some v" "\<not> Valid (v data)"
  shows "StatusCode (fst (httpHandler cd fn validator r)) = 400
     \<and> Written (fst (httpHandler cd fn validator r))
         = ''invalid input: '' @ Join (map (\<lambda>(field, e). field @ '': '' @ e) (Errors (v data))) '', ''
     \<and> snd (httpHandler cd fn validator r) = [ReadBody, Validate data]"
  using assms by (simp add: httpHandler_def decodeInput_def Let_def)

lemma httpHandler_valid_order:
  assumes "Method r = ''POST''" "Body r = Inr data" "validator = Some v" "Valid (v data)"
  shows "take 3 (snd (httpHandler cd fn validator r)) = [ReadBody, Validate data, Decoding data]"
  using assms
  by (simp add: httpHandler_def decodeInput_def Let_def split: sum.splits prod.splits)

lemma decodeInput_unknown:
  assumes "Body r = Inr data" "unknownKeys cd data \<noteq> []"
  shows "\<exists>e. fst (decodeInput cd r validator) = Inl e"
  using assms
  by (auto simp: decodeInput_def Decode_def Let_def split: sum.splits option.splits list.splits)

lemma httpHandler_decode_error:
  assumes "Method r = ''POST''" "fst (decodeInput cd r validator) = Inl e"
  shows "StatusCode (fst (httpHandler cd fn validator r)) = 400
     \<and> Written (fst (httpHandler cd fn validator r)) = Error e
     \<and> \<not> invoked (snd (httpHandler cd fn validator r))"
proof -
  obtain steps where d: "decodeInput cd r validator = (Inl e, steps)"
    using assms(2) by (cases "decodeInput cd r validator") auto
  have "\<not> invoked steps" using decodeInput_steps_not_invoked[of cd r validator] d by simp
  then show ?thesis using assms(1) d by (simp add: httpHandler_def)
qed

lemma httpHandler_fn_error:
  assumes "Method r = ''POST''" "fst (decodeInput cd r validator) = Inr req" "fn req = Inl e"
  shows "StatusCode (fst (httpHandler cd fn validator r)) = 500
     \<and> Written (fst (httpHandler cd fn validator r)) = Error e"
proof -
  obtain steps where d: "decodeInput cd r validator = (Inr req, steps)"
    using assms(2) by (cases "decodeInput cd r validator") auto
  then show ?thesis using assms(1,3) by (simp add: httpHandler_def)
qed

lemma httpHandler_success:
  assumes "Method r = ''POST''" "fst (decodeInput cd r validator) = Inr req" "fn req = Inr out"
  shows "StatusCode (fst (httpHandler cd fn validator r)) = 200
     \<and> Invoke req \<in> set (snd (httpHandler cd fn validator r))
     \<and> (\<forall>b. Marshal cd out = Inr b \<longrightarrow> Written (fst (httpHandler cd fn validator r)) = b @ newline)"
proof -
  obtain steps where d: "decodeInput cd r validator = (Inr req, steps)"
    using assms(2) by (cases "decodeInput cd r validator") auto
  then show ?thesis using assms(1,3)
    by (auto simp: httpHandler_def encodeOutput_def split: sum.splits)
qed

text \<open>
  C4. For every request to a function endpoint: a method other than POST gives 405 and
  the wrapped function is not invoked; with a validator, validation is the step after
  reading the body and before decoding, on the body as read, and a body it rejects gives
  400 with the per-field errors joined, without decoding and without invoking the
  function; a payload with a key unknown to the input type gives 400; any error of
  reading, validating or decoding gives 400 with the error text and no invocation; an
  error of the wrapped function gives 500 with its text as body; a result of the wrapped
  function gives 200 with the encoded output followed by a newline.
\<close>

theorem httpHandler_status_codes:
  "(Method r \<noteq> ''POST'' \<longrightarrow>
      StatusCode (fst (httpHandler cd fn validator r)) = 405
      \<and> \<not> invoked (snd (httpHandler cd fn validator r)))
   \<and> (Method r = ''POST'' \<and> Body r = Inr data \<and> validator = Some v \<and> \<not> Valid (v data) \<longrightarrow>
      StatusCode (fst (httpHandler cd fn validator r)) = 400
      \<and> Written (fst (httpHandler cd fn validator r))
          = ''invalid input: '' @ Join (map (\<lambda>(field, e). field @ '': '' @ e) (Errors (v data))) '', ''
      \<and> snd (httpHandler cd fn validator r) = [ReadBody, Validate data])
   \<and> (Method r = ''POST'' \<and> Body r = Inr data \<and> validator = Some v \<and> Valid (v data) \<longrightarrow>
      take 3 (snd (httpHandler cd fn validator r)) = [ReadBody, Validate data, Decoding data])
   \<and> (Method r = ''POST'' \<and> Body r = Inr data \<and> unknownKeys cd data \<noteq> [] \<longrightarrow>
      StatusCode (fst (httpHandler cd fn validator r)) = 400
      \<and> \<not> invoked (snd (httpHandler cd fn validator r)))
   \<and> (Method r = ''POST'' \<and> fst (decodeInput cd r validator) = Inl e \<longrightarrow>
      StatusCode (fst (httpHandler cd fn validator r)) = 400
      \<and> Written (fst (httpHandler cd fn validator r)) = Error e
      \<and> \<not> invoked (snd (httpHandler cd fn validator r)))
   \<and> (Method r = ''POST'' \<and> fst (decodeInput cd r validator) = Inr req \<and> fn req = Inl e' \<longrightarrow>
      StatusCode (fst (httpHandler cd fn validator r)) = 500
      \<and> Written (fst (httpHandler cd fn validator r)) = Error e')
   \<and> (Method r = ''POST'' \<and> fst (decodeInput cd r validator) = Inr req \<and> fn req = Inr out \<longrightarrow>
      StatusCode (fst (httpHandler cd fn validator r)) = 200
      \<and> Invoke req \<in> set (snd (httpHandler cd fn validator r))
      \<and> (\<forall>b. Marshal cd out = Inr b \<longrightarrow>
            Written (fst (httpHandler cd fn validator r)) = b @ newline))"
proof -
  have u: "Method r = ''POST'' \<and> Body r = Inr data \<and> unknownKeys cd data \<noteq> [] \<longrightarrow>
      StatusCode (fst (httpHandler cd fn validator r)) = 400
      \<and> \<not> invoked (snd (httpHandler cd fn validator r))"
    using decodeInput_unknown[of r data cd validator] httpHandler_decode_error[of r cd validator _ fn]
    by blast
  show ?thesis
    using httpHandler_not_post[of r cd fn validator]
      httpHandler_invalid[of r data validator v cd fn]
      httpHandler_valid_order[of r data validator v cd fn]
      u
      httpHandler_decode_error[of r cd validator e fn]
      httpHandler_fn_error[of r cd validator req fn e']
      httpHandler_success[of r cd validator req fn out]
    by blast
qed


theorem httpHandler_status_codes_witness:
  "StatusCode (fst (httpHandler helloCodec helloFn (Some helloValidator)
        \<lparr> Method = ''GET'', Body = Inr ''world'' \<rparr>)) = 405
   \<and> StatusCode (fst (httpHandler helloCodec helloFn (Some helloValidator) (post ''ab''))) = 400
   \<and> Written (fst (httpHandler helloCodec helloFn (Some helloValidator) (post ''ab'')))
       = ''invalid input: name: too short''
   \<and> take 3 (snd (httpHandler helloCodec helloFn (Some helloValidator) (post ''world'')))
       = [ReadBody, Validate ''world'', Decoding ''world'']
   \<and> StatusCode (fst (httpHandler helloCodec helloFn (Some helloValidator) (post ''world+extra''))) = 400
   \<and> StatusCode (fst (httpHandler helloCodec helloFn (Some helloValidator)
        \<lparr> Method = ''POST'', Body = Inl (OSError ''unexpected EOF'') \<rparr>)) = 400
   \<and> StatusCode (fst (httpHandler helloCodec helloFn (Some helloValidator) (post ''boom''))) = 500
   \<and> Written (fst (httpHandler helloCodec helloFn (Some helloValidator) (post ''boom''))) = ''boom failed''
   \<and> StatusCode (fst (httpHandler helloCodec helloFn (Some helloValidator) (post ''world''))) = 200
   \<and> Written (fst (httpHandler helloCodec helloFn (Some helloValidator) (post ''world'')))
       = ''hello, world!'' @ newline"
proof -
  let ?v = "Some helloValidator"
  have h1: "Method \<lparr> Method = ''GET'', Body = Inr ''world'' \<rparr> \<noteq> ''POST''" by simp
  have h2: "Method (post ''ab'') = ''POST'' \<and> Body (post ''ab'') = Inr ''ab''
      \<and> ?v = Some helloValidator \<and> \<not> Valid (helloValidator ''ab'')"
    by (simp add: post_def helloValidator_def)
  have h3: "Method (post ''world'') = ''POST'' \<and> Body (post ''world'') = Inr ''world''
      \<and> ?v = Some helloValidator \<and> Valid (helloValidator ''world'')"
    by (simp add: post_def helloValidator_def)
  have h4: "Method (post ''world+extra'') = ''POST'' \<and> Body (post ''world+extra'') = Inr ''world+extra''
      \<and> unknownKeys helloCodec ''world+extra'' \<noteq> []"
    by (simp add: post_def helloCodec_def)
  have h5: "Method \<lparr> Method = ''POST'', Body = Inl (OSError ''unexpected EOF'') \<rparr> = ''POST''
      \<and> fst (decodeInput helloCodec \<lparr> Method = ''POST'', Body = Inl (OSError ''unexpected EOF'') \<rparr> ?v)
          = Inl (OSError ''unexpected EOF'')"
    by (simp add: decodeInput_def)
  have h6: "Method (post ''boom'') = ''POST'' \<and> fst (decodeInput helloCodec (post ''boom'') ?v) = Inr ''boom''
      \<and> helloFn ''boom'' = Inl (ErrorString ''boom failed'')"
    by (simp add: post_def decodeInput_def Decode_def helloCodec_def helloValidator_def helloFn_def)
  have h7: "Method (post ''world'') = ''POST'' \<and> fst (decodeInput helloCodec (post ''world'') ?v) = Inr ''world''
      \<and> helloFn ''world'' = Inr ''hello, world!''"
    by (simp add: post_def decodeInput_def Decode_def helloCodec_def helloValidator_def helloFn_def)
  have m: "Marshal helloCodec ''hello, world!'' = Inr ''hello, world!''"
    by (simp add: helloCodec_def)
  have j: "''invalid input: '' @ Join (map (\<lambda>(field, e). field @ '': '' @ e) (Errors (helloValidator ''ab''))) '', ''
      = ''invalid input: name: too short''"
    by (simp add: helloValidator_def)
  note t = httpHandler_status_codes [where cd = helloCodec and fn = helloFn and validator = ?v]
  from t [where r = "\<lparr> Method = ''GET'', Body = Inr ''world'' \<rparr>"] h1
  have c1: "StatusCode (fst (httpHandler helloCodec helloFn ?v \<lparr> Method = ''GET'', Body = Inr ''world'' \<rparr>)) = 405"
    by blast
  from t [where r = "post ''ab''" and data = "''ab''" and v = helloValidator] h2
  have c2: "StatusCode (fst (httpHandler helloCodec helloFn ?v (post ''ab''))) = 400
      \<and> Written (fst (httpHandler helloCodec helloFn ?v (post ''ab'')))
          = ''invalid input: '' @ Join (map (\<lambda>(field, e). field @ '': '' @ e) (Errors (helloValidator ''ab''))) '', ''"
    by blast
  from t [where r = "post ''world''" and data = "''world''" and v = helloValidator] h3
  have c3: "take 3 (snd (httpHandler helloCodec helloFn ?v (post ''world'')))
       = [ReadBody, Validate ''world'', Decoding ''world'']"
    by blast
  from t [where r = "post ''world+extra''" and data = "''world+extra''"] h4
  have c4: "StatusCode (fst (httpHandler helloCodec helloFn ?v (post ''world+extra''))) = 400"
    by blast
  from t [where r = "\<lparr> Method = ''POST'', Body = Inl (OSError ''unexpected EOF'') \<rparr>"
      and e = "OSError ''unexpected EOF''"] h5
  have c5: "StatusCode (fst (httpHandler helloCodec helloFn ?v
        \<lparr> Method = ''POST'', Body = Inl (OSError ''unexpected EOF'') \<rparr>)) = 400"
    by blast
  from t [where r = "post ''boom''" and req = "''boom''" and e' = "ErrorString ''boom failed''"] h6
  have c6: "StatusCode (fst (httpHandler helloCodec helloFn ?v (post ''boom''))) = 500
      \<and> Written (fst (httpHandler helloCodec helloFn ?v (post ''boom''))) = Error (ErrorString ''boom failed'')"
    by blast
  from t [where r = "post ''world''" and req = "''world''" and out = "''hello, world!''"] h7 m
  have c7: "StatusCode (fst (httpHandler helloCodec helloFn ?v (post ''world''))) = 200
      \<and> Written (fst (httpHandler helloCodec helloFn ?v (post ''world''))) = ''hello, world!'' @ newline"
    by blast
  from c1 c2 c3 c4 c5 c6 c7 j show ?thesis
    by simp
qed

section \<open>Properties of the client\<close>

subsection \<open>Health polling\<close>









subsection \<open>New\<close>

lemma fold_applyOption_fields:
  "heartbeatChan (fold applyOption opts c) = heartbeatChan c
   \<and> httpClient (fold applyOption opts c) = httpClient c
   \<and> connection (fold applyOption opts c) = connection c
   \<and> commandContext (fold applyOption opts c) = commandContext c
   \<and> cancel (fold applyOption opts c) = cancel c
   \<and> path (fold applyOption opts c) = path c"
proof (induction opts arbitrary: c)
  case Nil
  then show ?case by simp
next
  case (Cons x opts)
  then show ?case by (cases x) simp_all
qed

lemma New_fields:
  "heartbeatChan (New pth opts) = None" "httpClient (New pth opts) = None"
  "connection (New pth opts) = None" "commandContext (New pth opts) = None"
  "cancel (New pth opts) = None" "path (New pth opts) = pth"
  by (simp_all add: New_def fold_applyOption_fields)

subsection \<open>Close\<close>

lemma Close_idle:
  assumes "heartbeatChan c = None" "httpClient c = None" "connection c = None"
    "commandContext c = None" "cancel c = None"
  shows "Close e c w = (Return None, c, w)"
  using assms by (simp add: Close_def)

lemma Close_Return:
  assumes "Close e c w = (Return r, c1, w1)"
  shows "heartbeatChan c1 = None" "httpClient c1 = None" "connection c1 = None"
    "commandContext c1 = None" "cancel c1 = None"
    "r = (case commandContext c of
            None \<Rightarrow> None
          | Some cmd \<Rightarrow> (case Process cmd of None \<Rightarrow> None | Some p \<Rightarrow> kill e p))"
  using assms
  by (auto simp: Close_def Let_def split: option.splits if_splits)

lemma Close_wellFormed:
  assumes "wellFormed c w"
  shows "\<exists>r. fst (Close e c w) = Return r"
    and "wellFormed (fst (snd (Close e c w))) (snd (snd (Close e c w)))"
    and "alive (snd (snd (Close e c w))) = {}"
proof -
  show "\<exists>r. fst (Close e c w) = Return r"
    using assms
    by (auto simp: Close_def Let_def wellFormed_def cancelContext_def split: option.splits)
  show "wellFormed (fst (snd (Close e c w))) (snd (snd (Close e c w)))"
    using assms
    by (auto simp: Close_def Let_def wellFormed_def cancelContext_def handleOf_def
        split: option.splits)
  show "alive (snd (snd (Close e c w))) = {}"
    using assms
    by (auto simp: Close_def Let_def wellFormed_def cancelContext_def handleOf_def
        split: option.splits)
qed


text \<open>
  C7. \<open>Close\<close> on a client that was never opened returns no error and changes nothing.
  Every \<open>Close\<close> that returns has cleared the connection, the process handle, the
  transport client, the channel and the cancel function, has left no process of the
  handle running, and has returned what killing the process gave when there was a
  process handle and no error when there was none; a second \<open>Close\<close> after it returns no
  error and changes nothing, so no channel is closed twice. In every state that \<open>New\<close>,
  \<open>Open\<close> and \<open>Close\<close> lead to, \<open>Close\<close> returns and does not panic.
\<close>

theorem Close_idempotent:
  "Close e (New pth opts) w = (Return None, New pth opts, w)
   \<and> (Close e c w = (Return r, c1, w1) \<longrightarrow>
        connection c1 = None \<and> commandContext c1 = None \<and> httpClient c1 = None
        \<and> heartbeatChan c1 = None \<and> cancel c1 = None
        \<and> handleOf c \<inter> alive w1 = {}
        \<and> r = (case commandContext c of
                 None \<Rightarrow> None
               | Some cmd \<Rightarrow> (case Process cmd of None \<Rightarrow> None | Some p \<Rightarrow> kill e p))
        \<and> Close e2 c1 w1 = (Return None, c1, w1))
   \<and> (wellFormed c w \<longrightarrow>
        (\<exists>r'. fst (Close e c w) = Return r')
        \<and> wellFormed (fst (snd (Close e c w))) (snd (snd (Close e c w)))
        \<and> alive (snd (snd (Close e c w))) = {})"
proof -
  have a: "Close e (New pth opts) w = (Return None, New pth opts, w)"
    by (rule Close_idle) (simp_all add: New_fields)
  have b: "Close e c w = (Return r, c1, w1) \<longrightarrow>
        connection c1 = None \<and> commandContext c1 = None \<and> httpClient c1 = None
        \<and> heartbeatChan c1 = None \<and> cancel c1 = None
        \<and> handleOf c \<inter> alive w1 = {}
        \<and> r = (case commandContext c of
                 None \<Rightarrow> None
               | Some cmd \<Rightarrow> (case Process cmd of None \<Rightarrow> None | Some p \<Rightarrow> kill e p))
        \<and> Close e2 c1 w1 = (Return None, c1, w1)"
  proof
    assume cl: "Close e c w = (Return r, c1, w1)"
    note f = Close_Return[OF cl]
    have k: "handleOf c \<inter> alive w1 = {}"
      using cl by (auto simp: Close_def Let_def handleOf_def split: option.splits if_splits)
    from f(1-5) have "Close e2 c1 w1 = (Return None, c1, w1)" by (intro Close_idle)
    with f k show "connection c1 = None \<and> commandContext c1 = None \<and> httpClient c1 = None
        \<and> heartbeatChan c1 = None \<and> cancel c1 = None
        \<and> handleOf c \<inter> alive w1 = {}
        \<and> r = (case commandContext c of
                 None \<Rightarrow> None
               | Some cmd \<Rightarrow> (case Process cmd of None \<Rightarrow> None | Some p \<Rightarrow> kill e p))
        \<and> Close e2 c1 w1 = (Return None, c1, w1)"
      by blast
  qed
  have c: "wellFormed c w \<longrightarrow>
        (\<exists>r'. fst (Close e c w) = Return r')
        \<and> wellFormed (fst (snd (Close e c w))) (snd (snd (Close e c w)))
        \<and> alive (snd (snd (Close e c w))) = {}"
    using Close_wellFormed[of c w e] by blast
  from a b c show ?thesis by blast
qed

lemma Close_openClient:
  "Close finishedEnv openClient world1 =
     (Return (Some (OSError ''os: process already finished'')),
      fst (snd (Close finishedEnv openClient world1)),
      snd (snd (Close finishedEnv openClient world1)))"
  by (simp add: Close_def Let_def openClient_def connectedClient_def world1_def world0_def
      finishedEnv_def healthyEnv_def cancelContext_def)

lemma wellFormed_openClient: "wellFormed openClient world1"
  by (simp add: wellFormed_def openClient_def connectedClient_def world1_def world0_def handleOf_def)

theorem Close_idempotent_witness:
  "wellFormed openClient world1
   \<and> fst (Close finishedEnv openClient world1) = Return (Some (OSError ''os: process already finished''))
   \<and> connection (fst (snd (Close finishedEnv openClient world1))) = None
   \<and> commandContext (fst (snd (Close finishedEnv openClient world1))) = None
   \<and> httpClient (fst (snd (Close finishedEnv openClient world1))) = None
   \<and> alive (snd (snd (Close finishedEnv openClient world1))) = {}
   \<and> closed (snd (snd (Close finishedEnv openClient world1))) = {0}
   \<and> Close healthyEnv (fst (snd (Close finishedEnv openClient world1)))
        (snd (snd (Close finishedEnv openClient world1)))
       = (Return None, fst (snd (Close finishedEnv openClient world1)),
          snd (snd (Close finishedEnv openClient world1)))"
proof -
  have cl: "closed (snd (snd (Close finishedEnv openClient world1))) = {0}"
    by (simp add: Close_def Let_def openClient_def connectedClient_def world1_def world0_def
        cancelContext_def)
  from Close_idempotent [where e = finishedEnv and c = openClient and w = world1
      and r = "Some (OSError ''os: process already finished'')"
      and ?c1.0 = "fst (snd (Close finishedEnv openClient world1))"
      and ?w1.0 = "snd (snd (Close finishedEnv openClient world1))" and ?e2.0 = healthyEnv]
    Close_openClient wellFormed_openClient
  have "connection (fst (snd (Close finishedEnv openClient world1))) = None
   \<and> commandContext (fst (snd (Close finishedEnv openClient world1))) = None
   \<and> httpClient (fst (snd (Close finishedEnv openClient world1))) = None
   \<and> alive (snd (snd (Close finishedEnv openClient world1))) = {}
   \<and> Close healthyEnv (fst (snd (Close finishedEnv openClient world1)))
        (snd (snd (Close finishedEnv openClient world1)))
       = (Return None, fst (snd (Close finishedEnv openClient world1)),
          snd (snd (Close finishedEnv openClient world1)))"
    by blast
  moreover have "fst (Close finishedEnv openClient world1)
      = Return (Some (OSError ''os: process already finished''))"
    by (subst Close_openClient) simp
  ultimately show ?thesis using wellFormed_openClient cl by blast
qed

subsection \<open>Schemas\<close>

text \<open>
  C10. On a client without connection, \<open>Schemas\<close> returns the error
  \<open>plugin is not connected\<close>, requests nothing and does not panic; a client that was
  never opened and a client that was closed are such clients. The error is built by
  \<open>errors.New\<close> and is no \<open>PluginExecutionError\<close>, which is what a transport failure and
  a status other than 200 are wrapped in.
\<close>

theorem Schemas_not_connected:
  "(connection c = None \<longrightarrow>
      Client_Schemas get decode c = (Return (Inl (ErrorString ''plugin is not connected'')), []))
   \<and> Client_Schemas get decode (New pth opts)
       = (Return (Inl (ErrorString ''plugin is not connected'')), [])
   \<and> (Close e c w = (Return r, c1, w1) \<longrightarrow>
      Client_Schemas get decode c1 = (Return (Inl (ErrorString ''plugin is not connected'')), []))
   \<and> (\<forall>er. ErrorString ''plugin is not connected'' \<noteq> PluginExecutionError er)
   \<and> (connection c = Some conn \<and> httpClient c = Some t \<and> get (BaseURL conn @ schemasPath) = Inl er \<longrightarrow>
      Client_Schemas get decode c = (Return (Inl (PluginExecutionError er)), [BaseURL conn @ schemasPath]))
   \<and> (connection c = Some conn \<and> httpClient c = Some t \<and> get (BaseURL conn @ schemasPath) = Inr resp
        \<and> respStatus resp \<noteq> 200 \<longrightarrow>
      Client_Schemas get decode c
        = (Return (Inl (PluginExecutionError
             (ErrorString (''plugin returned status '' @ decimal (respStatus resp))))),
           [BaseURL conn @ schemasPath]))"
proof -
  have a: "\<And>c. connection c = None \<Longrightarrow>
      Client_Schemas get decode c = (Return (Inl (ErrorString ''plugin is not connected'')), [])"
    by (simp add: Client_Schemas_def)
  have b: "Close e c w = (Return r, c1, w1) \<longrightarrow>
      Client_Schemas get decode c1 = (Return (Inl (ErrorString ''plugin is not connected'')), [])"
    using a Close_Return(3) by blast
  have d: "connection c = Some conn \<and> httpClient c = Some t \<and> get (BaseURL conn @ schemasPath) = Inl er \<longrightarrow>
      Client_Schemas get decode c = (Return (Inl (PluginExecutionError er)), [BaseURL conn @ schemasPath])"
    by (simp add: Client_Schemas_def)
  have f: "connection c = Some conn \<and> httpClient c = Some t \<and> get (BaseURL conn @ schemasPath) = Inr resp
        \<and> respStatus resp \<noteq> 200 \<longrightarrow>
      Client_Schemas get decode c
        = (Return (Inl (PluginExecutionError
             (ErrorString (''plugin returned status '' @ decimal (respStatus resp))))),
           [BaseURL conn @ schemasPath])"
    by (simp add: Client_Schemas_def)
  from a[of c] a[of "New pth opts"] New_fields(3)[of pth opts] b d f show ?thesis by simp
qed

theorem Schemas_not_connected_witness:
  "connection (New ''./plugin'' []) = None
   \<and> Client_Schemas (\<lambda>url. Inr \<lparr>respStatus = 200, respBody = ''{}''\<rparr>) (\<lambda>b. Inr b) (New ''./plugin'' [])
       = (Return (Inl (ErrorString ''plugin is not connected'')), [])
   \<and> Client_Schemas (\<lambda>url. Inr \<lparr>respStatus = 200, respBody = ''{}''\<rparr>) (\<lambda>b. Inr b)
        (fst (snd (Close finishedEnv openClient world1)))
       = (Return (Inl (ErrorString ''plugin is not connected'')), [])
   \<and> Client_Schemas (\<lambda>url. Inl (OSError ''connection refused'')) (\<lambda>b. Inr b) openClient
       = (Return (Inl (PluginExecutionError (OSError ''connection refused''))),
          [''http://127.0.0.1:8080/_schemas''])
   \<and> Client_Schemas (\<lambda>url. Inr \<lparr>respStatus = 503, respBody = []\<rparr>) (\<lambda>b. Inr b) openClient
       = (Return (Inl (PluginExecutionError (ErrorString (''plugin returned status '' @ decimal 503)))),
          [''http://127.0.0.1:8080/_schemas''])"
proof -
  let ?ok = "\<lambda>url :: string. (Inr \<lparr>respStatus = 200, respBody = ''{}''\<rparr> :: err + httpResponse)"
  let ?refused = "\<lambda>url :: string. (Inl (OSError ''connection refused'') :: err + httpResponse)"
  let ?busy = "\<lambda>url :: string. (Inr \<lparr>respStatus = 503, respBody = []\<rparr> :: err + httpResponse)"
  let ?dec = "\<lambda>b :: string. (Inr b :: err + string)"
  let ?conn = "\<lparr>FunctionExecutionTimeout = 0, BaseURL = ''http://127.0.0.1:8080''\<rparr>"
  have n: "connection (New ''./plugin'' []) = None" by (simp add: New_def)
  have o: "connection openClient = Some ?conn"
    "httpClient openClient = Some DefaultFunctionExecutionTimeout"
    by (simp_all add: openClient_def connectedClient_def)
  have u: "BaseURL ?conn @ schemasPath = ''http://127.0.0.1:8080/_schemas''"
    by (simp add: schemasPath_def)
  have s: "respStatus \<lparr>respStatus = 503, respBody = []\<rparr> \<noteq> 200" by simp
  from Schemas_not_connected [where c = "New ''./plugin'' []" and get = ?ok and decode = ?dec] n
  have c1: "Client_Schemas ?ok ?dec (New ''./plugin'' [])
       = (Return (Inl (ErrorString ''plugin is not connected'')), [])" by blast
  from Schemas_not_connected [where get = ?ok and decode = ?dec and e = finishedEnv
      and c = openClient and w = world1 and r = "Some (OSError ''os: process already finished'')"
      and ?c1.0 = "fst (snd (Close finishedEnv openClient world1))"
      and ?w1.0 = "snd (snd (Close finishedEnv openClient world1))"] Close_openClient
  have c2: "Client_Schemas ?ok ?dec (fst (snd (Close finishedEnv openClient world1)))
       = (Return (Inl (ErrorString ''plugin is not connected'')), [])" by blast
  from Schemas_not_connected [where c = openClient and get = ?refused and decode = ?dec
      and conn = ?conn and er = "OSError ''connection refused''"] o u
  have c3: "Client_Schemas ?refused ?dec openClient
       = (Return (Inl (PluginExecutionError (OSError ''connection refused''))),
          [''http://127.0.0.1:8080/_schemas''])" by simp
  from Schemas_not_connected [where c = openClient and get = ?busy and decode = ?dec
      and conn = ?conn and resp = "\<lparr>respStatus = 503, respBody = []\<rparr>"] o u s
  have c4: "Client_Schemas ?busy ?dec openClient
       = (Return (Inl (PluginExecutionError (ErrorString (''plugin returned status '' @ decimal 503)))),
          [''http://127.0.0.1:8080/_schemas''])" by simp
  from n c1 c2 c3 c4 show ?thesis by blast
qed

subsection \<open>Open\<close>

lemma waitForHealth_world:
  "waitForHealth e c w = Some (r, w') \<Longrightarrow> \<exists>t. w' = w\<lparr>clock := t\<rparr>"
  by (auto simp: waitForHealth_def split: option.splits)

lemma Open_running:
  "commandContext c \<noteq> None \<Longrightarrow>
     Open e c w = Some (Return (Some (ErrorString ''plugin is already running'')), c, w)"
  by (simp add: Open_def)

lemma pollHealth_no_panic:
  assumes "pollHealth p i d k now = Some res"
  shows "p \<noteq> None \<longrightarrow> (\<exists>x. fst res = Return x)"
  by (rule pollHealth.raw_induct
        [OF _ assms, where P = "\<lambda>probes interval deadline k now y. probes \<noteq> None \<longrightarrow> (\<exists>x. fst y = Return x)"])
     (auto split: if_splits option.splits)

lemma waitForHealth_no_panic:
  assumes "connection c = Some conn" "httpClient c = Some t" "waitForHealth e c w = Some (r, w')"
  shows "\<exists>x. r = Return x"
proof -
  have p: "healthProbes e c = Some (httpGet e (BaseURL conn @ healthPath))"
    using assms(1,2) by (simp add: healthProbes_def)
  from assms(3) obtain k t' where
    "pollHealth (Some (httpGet e (BaseURL conn @ healthPath))) (healthCheckInterval c)
       (clock w + healthCheckTimeout c) 0 (clock w) = Some (r, k, t')"
    unfolding waitForHealth_def p by (auto split: option.splits)
  from pollHealth_no_panic[OF this] show ?thesis by simp
qed

lemma closeAndReturn_cleanedUp:
  assumes "heartbeatChan c1 = None" "closed w1 = closed w" "nextChan w1 = nextChan w"
    "alive w1 \<subseteq> insert pid (alive w)" "commandContext c1 = Some \<lparr>Process = Some pid\<rparr>"
  shows "\<exists>c2 w2. closeAndReturn e c1 w1 er = (Return (Some er), c2, w2)
           \<and> cleanedUp w c2 w2 \<and> pid \<notin> alive w2"
  using assms
  by (auto simp: closeAndReturn_def Close_def Let_def cleanedUp_def cancelContext_def
      split: option.splits)

lemma Open_idle_cases [consumes 2, case_names StatFails Directory NotExecutable StartFails
    ReadFails BadPort Diverges Unhealthy Healthy]:
  assumes idle: "commandContext c = None" "heartbeatChan c = None"
  obtains
    er where "stat e = Inl er"
      "Open e c w = Some (Return (Some (PluginNotFoundError (Some er))), c, w)"
  | fileInfo where "stat e = Inr fileInfo" "IsDir fileInfo"
      "Open e c w = Some (Return (Some (PluginNotFoundError None)), c, w)"
  | fileInfo where "stat e = Inr fileInfo" "\<not> IsDir fileInfo" "\<not> fileIsExecutable fileInfo"
      "Open e c w = Some (Return (Some (PluginExecutionError
                                          (ErrorString ''plugin must be an executable''))), c, w)"
  | er c1 w1 where "runnable e" "start e = Inl er"
      "Open e c w = Some (Return (Some (PluginExecutionError er)), c1, w1)" "cleanedUp w c1 w1"
  | pid er c1 w1 where "runnable e" "start e = Inr pid" "readLine e = Inl er"
      "Open e c w = Some (Return (Some (PluginExecutionError er)), c1, w1)" "cleanedUp w c1 w1"
      "pid \<notin> alive w1"
  | pid line er c1 w1 where "runnable e" "start e = Inr pid" "readLine e = Inr line"
      "Atoi (TrimSpace line) = Inl er"
      "Open e c w = Some (Return (Some (PluginExecutionError (ErrorString
          (''invalid port received from plugin: '' @ TrimSpace line)))), c1, w1)"
      "cleanedUp w c1 w1" "pid \<notin> alive w1"
  | pid line n where "runnable e" "start e = Inr pid" "readLine e = Inr line"
      "Atoi (TrimSpace line) = Inr n"
      "waitForHealth e (polling c w pid line) (spawned w pid) = None" "Open e c w = None"
  | pid line n er t c1 w1 where "runnable e" "start e = Inr pid" "readLine e = Inr line"
      "Atoi (TrimSpace line) = Inr n"
      "waitForHealth e (polling c w pid line) (spawned w pid)
         = Some (Return (Some er), (spawned w pid)\<lparr>clock := t\<rparr>)"
      "Open e c w = Some (Return (Some (PluginExecutionError er)), c1, w1)" "cleanedUp w c1 w1"
      "pid \<notin> alive w1"
  | pid line n t where "runnable e" "start e = Inr pid" "readLine e = Inr line"
      "Atoi (TrimSpace line) = Inr n"
      "waitForHealth e (polling c w pid line) (spawned w pid)
         = Some (Return None, (spawned w pid)\<lparr>clock := t\<rparr>)"
      "Open e c w =
         Some (Return None,
               (if heartbeatInterval c > 0
                then (polling c w pid line)\<lparr>heartbeatChan := Some (nextChan w)\<rparr>
                else polling c w pid line),
               (if heartbeatInterval c > 0
                then (spawned w pid)\<lparr>clock := t, nextChan := Suc (nextChan w)\<rparr>
                else (spawned w pid)\<lparr>clock := t\<rparr>))"
proof (cases "stat e")
  case (Inl er)
  with idle have "Open e c w = Some (Return (Some (PluginNotFoundError (Some er))), c, w)"
    by (simp add: Open_def)
  with Inl show ?thesis by (rule that(1))
next
  case (Inr fileInfo)
  show ?thesis
  proof (cases "IsDir fileInfo")
    case True
    with idle Inr have "Open e c w = Some (Return (Some (PluginNotFoundError None)), c, w)"
      by (simp add: Open_def)
    with Inr True show ?thesis by (rule that(2))
  next
    case notDir: False
    show ?thesis
    proof (cases "fileIsExecutable fileInfo")
      case False
      with idle Inr notDir have "Open e c w = Some (Return (Some (PluginExecutionError
          (ErrorString ''plugin must be an executable''))), c, w)"
        by (simp add: Open_def)
      with Inr notDir False show ?thesis by (rule that(3))
    next
      case True
      with Inr notDir have run: "runnable e" by (simp add: runnable_def)
      show ?thesis
      proof (cases "start e")
        case (Inl er)
        let ?c1 = "fst (snd (Close e (c\<lparr>cancel := Some (nextContext w)\<rparr>) (w\<lparr>nextContext := Suc (nextContext w)\<rparr>)))"
        let ?w1 = "snd (snd (Close e (c\<lparr>cancel := Some (nextContext w)\<rparr>) (w\<lparr>nextContext := Suc (nextContext w)\<rparr>)))"
        have "Open e c w = Some (Return (Some (PluginExecutionError er)), ?c1, ?w1)"
          using idle Inr notDir True Inl
          by (simp add: Open_def Let_def closeAndReturn_def Close_def)
        moreover have "cleanedUp w ?c1 ?w1"
          using idle
          by (auto simp: Close_def Let_def cleanedUp_def cancelContext_def split: option.splits)
        ultimately show ?thesis using run Inl that(4) by blast
      next
        case started: (Inr pid)
        let ?c2 = "c\<lparr>cancel := Some (nextContext w), commandContext := Some \<lparr>Process = Some pid\<rparr>\<rparr>"
        have sp: "closed (spawned w pid) = closed w" "nextChan (spawned w pid) = nextChan w"
          "alive (spawned w pid) \<subseteq> insert pid (alive w)"
          by (simp_all add: spawned_def)
        show ?thesis
        proof (cases "readLine e")
          case (Inl er)
          have o: "Open e c w = Some (closeAndReturn e ?c2 (spawned w pid) (PluginExecutionError er))"
            using idle Inr notDir True started Inl
            by (simp add: Open_def Let_def spawned_def)
          have f: "heartbeatChan ?c2 = None" "commandContext ?c2 = Some \<lparr>Process = Some pid\<rparr>"
            using idle by simp_all
          from closeAndReturn_cleanedUp[OF f(1) sp f(2), of e "PluginExecutionError er"]
          obtain c1 w1 where
            "closeAndReturn e ?c2 (spawned w pid) (PluginExecutionError er)
               = (Return (Some (PluginExecutionError er)), c1, w1)"
            "cleanedUp w c1 w1" "pid \<notin> alive w1"
            by auto
          with o run started Inl that(5) show ?thesis by metis
        next
          case line: (Inr line)
          show ?thesis
          proof (cases "Atoi (TrimSpace line)")
            case (Inl er)
            let ?err = "PluginExecutionError (ErrorString
                (''invalid port received from plugin: '' @ TrimSpace line))"
            have o: "Open e c w = Some (closeAndReturn e ?c2 (spawned w pid) ?err)"
              using idle Inr notDir True started line Inl
              by (simp add: Open_def Let_def spawned_def)
            have f: "heartbeatChan ?c2 = None" "commandContext ?c2 = Some \<lparr>Process = Some pid\<rparr>"
              using idle by simp_all
            from closeAndReturn_cleanedUp[OF f(1) sp f(2), of e ?err]
            obtain c1 w1 where
              "closeAndReturn e ?c2 (spawned w pid) ?err = (Return (Some ?err), c1, w1)"
              "cleanedUp w c1 w1" "pid \<notin> alive w1"
              by auto
            with o run started line Inl that(6) show ?thesis by metis
          next
            case port: (Inr n)
            let ?c3 = "polling c w pid line"
            have o: "Open e c w =
              (case waitForHealth e ?c3 (spawned w pid) of
                 None \<Rightarrow> None
               | Some (Panic p, w3) \<Rightarrow> Some (Panic p, ?c3, w3)
               | Some (Return (Some er), w3) \<Rightarrow>
                   Some (closeAndReturn e ?c3 w3 (PluginExecutionError er))
               | Some (Return None, w3) \<Rightarrow>
                   if heartbeatInterval ?c3 > 0
                   then Some (Return None, ?c3\<lparr>heartbeatChan := Some (nextChan w3)\<rparr>,
                              w3\<lparr>nextChan := Suc (nextChan w3)\<rparr>)
                   else Some (Return None, ?c3, w3))"
              using idle Inr notDir True started line port
              by (simp add: Open_def Let_def spawned_def polling_def
                  split: option.splits prod.splits outcome.splits)
            have c3: "connection ?c3 = Some \<lparr>FunctionExecutionTimeout = 0,
                  BaseURL = defaultSchema @ defaultHost @ '':'' @ TrimSpace line\<rparr>"
              "httpClient ?c3 = Some (functionExecutionTimeout c)"
              "heartbeatChan ?c3 = None" "commandContext ?c3 = Some \<lparr>Process = Some pid\<rparr>"
              "heartbeatInterval ?c3 = heartbeatInterval c"
              using idle by (simp_all add: polling_def)
            show ?thesis
            proof (cases "waitForHealth e ?c3 (spawned w pid)")
              case None
              with o have "Open e c w = None" by simp
              with run started line port None that(7) show ?thesis by blast
            next
              case (Some res)
              obtain r w3 where res: "res = (r, w3)" by (cases res)
              from waitForHealth_world[of e ?c3 "spawned w pid" r w3] Some res
              obtain t where w3: "w3 = (spawned w pid)\<lparr>clock := t\<rparr>" by auto
              from waitForHealth_no_panic[OF c3(1,2), of e "spawned w pid" r w3] Some res
              obtain x where r: "r = Return x" by auto
              show ?thesis
              proof (cases x)
                case None
                have "Open e c w =
                  Some (Return None,
                    (if heartbeatInterval c > 0
                     then ?c3\<lparr>heartbeatChan := Some (nextChan w)\<rparr> else ?c3),
                    (if heartbeatInterval c > 0
                     then (spawned w pid)\<lparr>clock := t, nextChan := Suc (nextChan w)\<rparr>
                     else (spawned w pid)\<lparr>clock := t\<rparr>))"
                  using o Some res r None w3 c3(5) by (simp add: spawned_def)
                moreover have "waitForHealth e ?c3 (spawned w pid)
                    = Some (Return None, (spawned w pid)\<lparr>clock := t\<rparr>)"
                  using Some res r None w3 by simp
                ultimately show ?thesis using run started line port that(9) by blast
              next
                case (Some er)
                have o': "Open e c w = Some (closeAndReturn e ?c3 w3 (PluginExecutionError er))"
                  using o \<open>waitForHealth e ?c3 (spawned w pid) = Some res\<close> res r Some by simp
                have "closed w3 = closed w" "nextChan w3 = nextChan w"
                  "alive w3 \<subseteq> insert pid (alive w)"
                  using w3 by (simp_all add: spawned_def)
                from closeAndReturn_cleanedUp[OF c3(3) this c3(4), of e "PluginExecutionError er"]
                obtain c1 w1 where
                  "closeAndReturn e ?c3 w3 (PluginExecutionError er)
                     = (Return (Some (PluginExecutionError er)), c1, w1)"
                  "cleanedUp w c1 w1" "pid \<notin> alive w1"
                  by auto
                moreover have "waitForHealth e ?c3 (spawned w pid)
                    = Some (Return (Some er), (spawned w pid)\<lparr>clock := t\<rparr>)"
                  using \<open>waitForHealth e ?c3 (spawned w pid) = Some res\<close> res r Some w3 by simp
                ultimately show ?thesis using o' run started line port that(8) by metis
              qed
            qed
          qed
        qed
      qed
    qed
  qed
qed


lemma cleanedUp_wellFormed:
  assumes "wellFormed c w" "commandContext c = None" "cleanedUp w c1 w1"
  shows "wellFormed c1 w1" "alive w1 = {}"
  using assms by (auto simp: wellFormed_def cleanedUp_def handleOf_def)

lemma wellFormed_idle:
  assumes "wellFormed c w" "commandContext c = None"
  shows "heartbeatChan c = None" "connection c = None" "httpClient c = None" "cancel c = None"
    "alive w = {}"
  using assms by (auto simp: wellFormed_def handleOf_def)

lemma wellFormed_New: "wellFormed (New pth opts) world0"
  by (simp add: wellFormed_def New_fields handleOf_def world0_def)

text \<open>
  C5. \<open>Open\<close> on a client that holds a process handle fails at once and changes
  nothing. On a client without one, in a state that \<open>New\<close>, \<open>Open\<close> and \<open>Close\<close> lead to,
  an \<open>Open\<close> that comes back has returned and not panicked, and has led to such a state
  again, in which no process runs but the one of the client's handle; when it returned an
  error, the client has no connection, process handle, transport client, cancel function
  or channel, and no process runs, the plugin process included if it had been started;
  when it returned no error, the client holds the connection to the announced port, the
  handle of the started process and the transport client, and that process is the one
  process running.
\<close>

theorem Open_all_or_nothing:
  "(commandContext c \<noteq> None \<longrightarrow>
      Open e c w = Some (Return (Some (ErrorString ''plugin is already running'')), c, w))
   \<and> wellFormed (New pth opts) world0
   \<and> (wellFormed c w \<and> Open e c w = Some (r, c1, w1) \<longrightarrow>
        (\<exists>x. r = Return x) \<and> wellFormed c1 w1 \<and> alive w1 \<subseteq> handleOf c1)
   \<and> (wellFormed c w \<and> commandContext c = None \<and> Open e c w = Some (Return (Some er), c1, w1) \<longrightarrow>
        connection c1 = None \<and> commandContext c1 = None \<and> httpClient c1 = None
        \<and> cancel c1 = None \<and> heartbeatChan c1 = None \<and> alive w1 = {})
   \<and> (wellFormed c w \<and> commandContext c = None \<and> Open e c w = Some (Return None, c1, w1) \<longrightarrow>
        (\<exists>pid line. start e = Inr pid \<and> readLine e = Inr line
           \<and> connection c1 = Some \<lparr>FunctionExecutionTimeout = 0,
                                     BaseURL = defaultSchema @ defaultHost @ '':'' @ TrimSpace line\<rparr>
           \<and> commandContext c1 = Some \<lparr>Process = Some pid\<rparr>
           \<and> httpClient c1 = Some (functionExecutionTimeout c)
           \<and> alive w1 = {pid}))"
proof -
  have a: "commandContext c \<noteq> None \<longrightarrow>
      Open e c w = Some (Return (Some (ErrorString ''plugin is already running'')), c, w)"
    using Open_running by blast
  have main: "(\<exists>x. r = Return x) \<and> wellFormed c1 w1
      \<and> (\<forall>er. r = Return (Some er) \<longrightarrow>
            connection c1 = None \<and> commandContext c1 = None \<and> httpClient c1 = None
            \<and> cancel c1 = None \<and> heartbeatChan c1 = None \<and> alive w1 = {})
      \<and> (r = Return None \<longrightarrow>
            (\<exists>pid line. start e = Inr pid \<and> readLine e = Inr line
               \<and> connection c1 = Some \<lparr>FunctionExecutionTimeout = 0,
                                         BaseURL = defaultSchema @ defaultHost @ '':'' @ TrimSpace line\<rparr>
               \<and> commandContext c1 = Some \<lparr>Process = Some pid\<rparr>
               \<and> httpClient c1 = Some (functionExecutionTimeout c)
               \<and> alive w1 = {pid}))"
    if wf: "wellFormed c w" and idle: "commandContext c = None"
      and op: "Open e c w = Some (r, c1, w1)" for r c1 w1
  proof -
    note i = wellFormed_idle[OF wf idle]
    from idle i(1) show ?thesis
    proof (cases rule: Open_idle_cases[where e = e and w = w])
      case (StatFails er)
      with op wf i idle show ?thesis by auto
    next
      case (Directory fileInfo)
      with op wf i idle show ?thesis by auto
    next
      case (NotExecutable fileInfo)
      with op wf i idle show ?thesis by auto
    next
      case (StartFails er c2 w2)
      with op cleanedUp_wellFormed[OF wf idle, of c2 w2] show ?thesis
        by (auto simp: cleanedUp_def)
    next
      case (ReadFails pid er c2 w2)
      with op cleanedUp_wellFormed[OF wf idle, of c2 w2] show ?thesis
        by (auto simp: cleanedUp_def)
    next
      case (BadPort pid line er c2 w2)
      with op cleanedUp_wellFormed[OF wf idle, of c2 w2] show ?thesis
        by (auto simp: cleanedUp_def)
    next
      case (Diverges pid line n)
      with op show ?thesis by simp
    next
      case (Unhealthy pid line n er t c2 w2)
      with op cleanedUp_wellFormed[OF wf idle, of c2 w2] show ?thesis
        by (auto simp: cleanedUp_def)
    next
      case (Healthy pid line n t)
      have cl: "\<forall>ch \<in> closed w. ch < nextChan w" using wf by (simp add: wellFormed_def)
      show ?thesis
      proof (cases "heartbeatInterval c > 0")
        case True
        with Healthy op have r: "r = Return None"
          and c1: "c1 = (polling c w pid line)\<lparr>heartbeatChan := Some (nextChan w)\<rparr>"
          and w1: "w1 = (spawned w pid)\<lparr>clock := t, nextChan := Suc (nextChan w)\<rparr>"
          by simp_all
        have "wellFormed c1 w1"
          using cl i unfolding c1 w1
          by (auto simp: wellFormed_def polling_def spawned_def handleOf_def)
        then show ?thesis
          using r Healthy(2,3) i unfolding c1 w1 by (simp add: polling_def spawned_def)
      next
        case False
        with Healthy op have r: "r = Return None"
          and c1: "c1 = polling c w pid line"
          and w1: "w1 = (spawned w pid)\<lparr>clock := t\<rparr>"
          by simp_all
        have "wellFormed c1 w1"
          using cl i unfolding c1 w1
          by (auto simp: wellFormed_def polling_def spawned_def handleOf_def)
        then show ?thesis
          using r Healthy(2,3) i unfolding c1 w1 by (simp add: polling_def spawned_def)
      qed
    qed
  qed
  have b: "wellFormed c w \<and> Open e c w = Some (r, c1, w1) \<longrightarrow>
        (\<exists>x. r = Return x) \<and> wellFormed c1 w1 \<and> alive w1 \<subseteq> handleOf c1"
  proof (intro impI, elim conjE)
    assume wf: "wellFormed c w" and op: "Open e c w = Some (r, c1, w1)"
    show "(\<exists>x. r = Return x) \<and> wellFormed c1 w1 \<and> alive w1 \<subseteq> handleOf c1"
    proof (cases "commandContext c = None")
      case True
      from main[OF wf True op] show ?thesis by (simp add: wellFormed_def)
    next
      case False
      with op wf Open_running[OF False, of e w] show ?thesis by (auto simp: wellFormed_def)
    qed
  qed
  have c: "wellFormed c w \<and> commandContext c = None \<and> Open e c w = Some (Return (Some er), c1, w1) \<longrightarrow>
        connection c1 = None \<and> commandContext c1 = None \<and> httpClient c1 = None
        \<and> cancel c1 = None \<and> heartbeatChan c1 = None \<and> alive w1 = {}"
    using main[of "Return (Some er)" c1 w1] by blast
  have d: "wellFormed c w \<and> commandContext c = None \<and> Open e c w = Some (Return None, c1, w1) \<longrightarrow>
        (\<exists>pid line. start e = Inr pid \<and> readLine e = Inr line
           \<and> connection c1 = Some \<lparr>FunctionExecutionTimeout = 0,
                                     BaseURL = defaultSchema @ defaultHost @ '':'' @ TrimSpace line\<rparr>
           \<and> commandContext c1 = Some \<lparr>Process = Some pid\<rparr>
           \<and> httpClient c1 = Some (functionExecutionTimeout c)
           \<and> alive w1 = {pid})"
    using main[of "Return None" c1 w1] by blast
  from a wellFormed_New b c d show ?thesis by blast
qed






lemma port_examples:
  "TrimSpace (''8080'' @ newline) = ''8080''" "Atoi ''8080'' = Inr 8080"
  "TrimSpace (''0'' @ newline) = ''0''" "Atoi ''0'' = Inr 0"
  "TrimSpace (''starting up'' @ newline) = ''starting up''"
  "Atoi ''starting up'' = Inl (OSError ''strconv.Atoi: invalid syntax'')"
  by (simp_all add: TrimSpace_def isSpace_def newline_def Atoi_def isDigit_def)



lemmas example_defs =
  Open_def Let_def closeAndReturn_def Close_def cancelContext_def waitForHealth_def
  healthProbes_def pollHealth.simps world0_def world1_def New_def impatientClient_def
  openClient_def connectedClient_def healthyEnv_def deadEnv_def missingEnv_def
  directoryEnv_def notExecutableEnv_def startFailsEnv_def silentEnv_def chattyEnv_def
  portZeroEnv_def slowStart_def neverUp_def IsDir_def fileIsExecutable_def ModeDir_def
  TrimSpace_def isSpace_def newline_def Atoi_def isDigit_def
  DefaultHealthCheckTimeout_def DefaultHealthCheckInterval_def DefaultFunctionExecutionTimeout_def

lemma Open_examples:
  "Open healthyEnv (New ''./plugin'' []) world0
     = Some (Return None, snd (the (Open healthyEnv (New ''./plugin'' []) world0)))"
  "Open deadEnv impatientClient world0
     = Some (Return (Some (PluginExecutionError timeoutError)),
             snd (the (Open deadEnv impatientClient world0)))"
  by (simp_all add: example_defs)



lemma env_examples:
  "stat missingEnv = Inl (OSError ''stat ./plugin: no such file or directory'')"
  "start startFailsEnv = Inl (OSError ''fork/exec ./plugin: exec format error'')"
  "start silentEnv = Inr 4242" "readLine silentEnv = Inl (OSError ''EOF'')"
  "start chattyEnv = Inr 4242" "readLine chattyEnv = Inr (''starting up'' @ newline)"
  "start deadEnv = Inr 4242" "readLine deadEnv = Inr (''8080'' @ newline)"
  "start portZeroEnv = Inr 4242" "readLine portZeroEnv = Inr (''0'' @ newline)"
  "start healthyEnv = Inr 4242" "readLine healthyEnv = Inr (''8080'' @ newline)"
  "httpGet portZeroEnv = neverUp"
  by (simp_all add: missingEnv_def startFailsEnv_def silentEnv_def chattyEnv_def deadEnv_def
      portZeroEnv_def healthyEnv_def)


text \<open>
  A second \<open>Open\<close> on an open client, an \<open>Open\<close> that succeeds and one whose plugin
  never becomes healthy.
\<close>

theorem Open_all_or_nothing_witness:
  "commandContext openClient \<noteq> None
   \<and> Open healthyEnv openClient world1
       = Some (Return (Some (ErrorString ''plugin is already running'')), openClient, world1)
   \<and> wellFormed (New ''./plugin'' []) world0
   \<and> commandContext (New ''./plugin'' []) = None
   \<and> Open healthyEnv (New ''./plugin'' []) world0
       = Some (Return None, snd (the (Open healthyEnv (New ''./plugin'' []) world0)))
   \<and> connection (fst (snd (the (Open healthyEnv (New ''./plugin'' []) world0))))
       = Some \<lparr>FunctionExecutionTimeout = 0, BaseURL = ''http://127.0.0.1:8080''\<rparr>
   \<and> commandContext (fst (snd (the (Open healthyEnv (New ''./plugin'' []) world0))))
       = Some \<lparr>Process = Some 4242\<rparr>
   \<and> alive (snd (snd (the (Open healthyEnv (New ''./plugin'' []) world0)))) = {4242}
   \<and> wellFormed impatientClient world0
   \<and> Open deadEnv impatientClient world0
       = Some (Return (Some (PluginExecutionError timeoutError)),
               snd (the (Open deadEnv impatientClient world0)))
   \<and> connection (fst (snd (the (Open deadEnv impatientClient world0)))) = None
   \<and> commandContext (fst (snd (the (Open deadEnv impatientClient world0)))) = None
   \<and> httpClient (fst (snd (the (Open deadEnv impatientClient world0)))) = None
   \<and> alive (snd (snd (the (Open deadEnv impatientClient world0)))) = {}"
proof -
  let ?c = "New ''./plugin'' []"
  let ?ok = "the (Open healthyEnv ?c world0)"
  let ?ko = "the (Open deadEnv impatientClient world0)"
  have r: "commandContext openClient \<noteq> None"
    by (simp add: openClient_def)
  have idle: "commandContext ?c = None" "commandContext impatientClient = None"
    by (simp_all add: New_fields impatientClient_def)
  have wf: "wellFormed ?c world0" "wellFormed impatientClient world0"
    unfolding impatientClient_def
    using Open_all_or_nothing [where pth = "''./plugin''" and opts = "[]"]
      Open_all_or_nothing [where pth = "''./plugin''" and opts = "[WithHealthCheckTimeout 100000000]"]
    by blast+
  have ok: "Open healthyEnv ?c world0 = Some (Return None, fst (snd ?ok), snd (snd ?ok))"
    using Open_examples(1) by simp
  have ko: "Open deadEnv impatientClient world0
      = Some (Return (Some (PluginExecutionError timeoutError)), fst (snd ?ko), snd (snd ?ko))"
    using Open_examples(2) by simp
  from Open_all_or_nothing [where c = openClient and e = healthyEnv and w = world1] r
  have c1: "Open healthyEnv openClient world1
       = Some (Return (Some (ErrorString ''plugin is already running'')), openClient, world1)"
    by blast
  from Open_all_or_nothing [where c = ?c and e = healthyEnv and w = world0
      and ?c1.0 = "fst (snd ?ok)" and ?w1.0 = "snd (snd ?ok)"] wf(1) idle(1) ok
  obtain pid line where s: "start healthyEnv = Inr pid" "readLine healthyEnv = Inr line"
    "connection (fst (snd ?ok)) = Some \<lparr>FunctionExecutionTimeout = 0,
        BaseURL = defaultSchema @ defaultHost @ '':'' @ TrimSpace line\<rparr>"
    "commandContext (fst (snd ?ok)) = Some \<lparr>Process = Some pid\<rparr>"
    "alive (snd (snd ?ok)) = {pid}"
    by blast
  from s(1,2) env_examples(11,12) have "pid = 4242" "line = ''8080'' @ newline" by simp_all
  with s(3,4,5) port_examples(1)
  have c2: "connection (fst (snd ?ok))
       = Some \<lparr>FunctionExecutionTimeout = 0, BaseURL = ''http://127.0.0.1:8080''\<rparr>"
    "commandContext (fst (snd ?ok)) = Some \<lparr>Process = Some 4242\<rparr>"
    "alive (snd (snd ?ok)) = {4242}"
    by (simp_all add: defaultSchema_def defaultHost_def)
  from Open_all_or_nothing [where c = impatientClient and e = deadEnv and w = world0
      and er = "PluginExecutionError timeoutError"
      and ?c1.0 = "fst (snd ?ko)" and ?w1.0 = "snd (snd ?ko)"] wf(2) idle(2) ko
  have c3: "connection (fst (snd ?ko)) = None" "commandContext (fst (snd ?ko)) = None"
    "httpClient (fst (snd ?ko)) = None" "alive (snd (snd ?ko)) = {}"
    by blast+
  from r c1 wf idle(1) Open_examples c2 c3 show ?thesis by blast
qed

section \<open>Properties of the function stub\<close>

text \<open>
  A stub that was built while the client was connected keeps its connection: \<open>Call\<close>
  on it after \<open>Close\<close> posts to the old address, and a transport error comes back as a
  \<open>FunctionExecutionError\<close>. The connection that \<open>Open\<close> installs carries no timeout, so
  the transport client of the stub has timeout 0.
\<close>

lemma Call_transport_error:
  assumes "marshal input = Inr b"
    and "doPost (BaseURL (clientConnection f) @ ''/'' @ name f) b = Inl er"
  shows "Call marshal unmarshal doPost f input = Inl (FunctionExecutionError (name f) er)"
  using assms by (simp add: Call_def)

lemma NewFunction_after_Open:
  assumes "Open e c w = Some (Return None, c1, w1)"
  shows "\<exists>cn. Client_Connection c1 = Some cn
     \<and> NewFunction nm (Client_Connection c1)
         = Return \<lparr> name = nm, fnHttpClient = 0, clientConnection = cn \<rparr>"
proof -
  from assms have "commandContext c = None"
    by (auto simp: Open_def split: if_splits)
  moreover have "\<exists>cn. connection c1 = Some cn \<and> FunctionExecutionTimeout cn = 0"
    using assms calculation
    apply (simp add: Open_def Let_def closeAndReturn_def split: sum.splits if_splits option.splits
        outcome.splits prod.splits)
    apply auto
    done
  ultimately show ?thesis
    by (auto simp: NewFunction_def Client_Connection_def)
qed

text \<open>
  C2, on the code. The connection of a client that was never opened, and of a client
  that was closed, is \<open>nil\<close>, and \<open>NewFunction\<close> panics on it: no stub is built, and
  there is nothing to call \<open>Call\<close> on.
\<close>

theorem NewFunction_without_connection_panics:
  "NewFunction nm (Client_Connection (New pth opts)) = Panic NilDereference
   \<and> NewFunction nm (Client_Connection (fst (snd (Close finishedEnv openClient world1))))
       = Panic NilDereference"
proof -
  have "connection (fst (snd (Close finishedEnv openClient world1))) = None"
    using Close_Return(3)[OF Close_openClient] .
  then show ?thesis
    by (simp add: NewFunction_def Client_Connection_def New_fields)
qed

end
